theory Spec2Isabelle
  imports Main
begin

section \<open>Python values, errors and string operations\<close>

text \<open>
  The exceptions that the wrapper class \<open>MCG\<close> (ocs_ci/ocs/resources/mcg.py) can meet.
  \<open>ClientError\<close> carries the error code of the S3 response (\<open>''404''\<close>, \<open>''403''\<close>, ...),
  \<open>CommandFailed\<close> carries \<open>repr(e)\<close>, the text that \<open>oc_verify_bucket_exists\<close> searches.
  \<open>NameError\<close> stands for Python's \<open>UnboundLocalError\<close>, one of its subclasses.
  A computation that can raise returns \<open>error + 'a\<close>, with \<open>Inl\<close> for the exception.
\<close>

datatype error =
    ClientError string
  | CommandFailed string
  | TimeoutExpiredError
  | NameError
  | IndexError
  | KeyError
  | TypeError
  | AttributeError
  | OtherError string

definition bind_err :: "error + 'a \<Rightarrow> ('a \<Rightarrow> error + 'b) \<Rightarrow> error + 'b" where
  "bind_err m f = (case m of Inl e \<Rightarrow> Inl e | Inr x \<Rightarrow> f x)"

text \<open>\<open>s.split(sep)\<close> for a separator of one character: every occurrence cuts, and the
  result always has at least one element (\<open>''''.split(sep) == ['''']\<close>).\<close>

fun str_split :: "char \<Rightarrow> string \<Rightarrow> string list" where
  "str_split sep [] = [[]]"
| "str_split sep (x # xs) =
     (if x = sep then [] # str_split sep xs
      else (case str_split sep xs of
              [] \<Rightarrow> [[x]]
            | w # ws \<Rightarrow> (x # w) # ws))"

text \<open>\<open>sep.join(ws)\<close>, to state what \<open>str_split\<close> keeps.\<close>

fun str_join :: "char \<Rightarrow> string list \<Rightarrow> string" where
  "str_join sep [] = []"
| "str_join sep [w] = w"
| "str_join sep (w # v # ws) = w @ sep # str_join sep (v # ws)"

text \<open>The characters below code point 256 that \<open>str.isspace\<close> accepts.\<close>

definition isspace :: "char \<Rightarrow> bool" where
  "isspace c = (c \<in> set [CHR 0x09, CHR 0x0A, CHR 0x0B, CHR 0x0C, CHR 0x0D,
                            CHR 0x1C, CHR 0x1D, CHR 0x1E, CHR 0x1F, CHR 0x20,
                            CHR 0x85, CHR 0xA0])"

text \<open>\<open>s.split()\<close> with no argument: runs of whitespace separate the tokens and no
  token is empty. \<open>tok\<close> is the token being read.\<close>

fun split_tokens :: "string \<Rightarrow> string \<Rightarrow> string list" where
  "split_tokens tok [] = (if tok = [] then [] else [tok])"
| "split_tokens tok (x # xs) =
     (if isspace x then (if tok = [] then split_tokens [] xs else tok # split_tokens [] xs)
      else split_tokens (tok @ [x]) xs)"

definition str_split_ws :: "string \<Rightarrow> string list" where
  "str_split_ws s = split_tokens [] s"

text \<open>\<open>xs[1:-1]\<close>: the elements from index 1 up to, not including, the last one;
  empty when the list has fewer than three elements.\<close>

definition slice_1_m1 :: "'a list \<Rightarrow> 'a list" where
  "slice_1_m1 xs = drop 1 (take (length xs - 1) xs)"

text \<open>\<open>xs[i]\<close> for \<open>i \<ge> 0\<close>: \<open>IndexError\<close> out of range.\<close>

definition py_index :: "'a list \<Rightarrow> nat \<Rightarrow> error + 'a" where
  "py_index xs i = (if i < length xs then Inr (xs ! i) else Inl IndexError)"

text \<open>A list comprehension \<open>[f(x) for x in xs]\<close> whose body can raise: the first
  exception ends it.\<close>

fun comprehension :: "('a \<Rightarrow> error + 'b) \<Rightarrow> 'a list \<Rightarrow> error + 'b list" where
  "comprehension f [] = Inr []"
| "comprehension f (x # xs) =
     (case f x of
        Inl e \<Rightarrow> Inl e
      | Inr y \<Rightarrow> (case comprehension f xs of Inl e \<Rightarrow> Inl e | Inr ys \<Rightarrow> Inr (y # ys)))"

text \<open>\<open>needle in haystack\<close> on strings.\<close>

fun str_contains :: "string \<Rightarrow> string \<Rightarrow> bool" where
  "str_contains needle [] = (needle = [])"
| "str_contains needle (y # ys) =
     (take (length needle) (y # ys) = needle \<or> str_contains needle ys)"

section \<open>Structured objects of the cluster API and of the RPC replies\<close>

text \<open>
  The objects that \<open>OCP.get\<close> and \<open>resp.json()\<close> return are nested dictionaries and
  lists. A dictionary is an association list read with \<open>map_of\<close>; numbers are integers
  (the byte counts the gateway reports); \<open>JNull\<close> is Python's \<open>None\<close>.
\<close>

datatype json =
    JNull
  | JBool bool
  | JNum int
  | JStr string
  | JList "json list"
  | JDict "(string \<times> json) list"

text \<open>\<open>x.get(k)\<close>: \<open>None\<close> for a missing key, \<open>AttributeError\<close> when \<open>x\<close> is not a
  dictionary.\<close>

fun py_get :: "json \<Rightarrow> string \<Rightarrow> error + json" where
  "py_get (JDict kvs) k = Inr (case map_of kvs k of None \<Rightarrow> JNull | Some v \<Rightarrow> v)"
| "py_get _ k = Inl AttributeError"

text \<open>A chain \<open>x.get(k1).get(k2)...\<close>.\<close>

fun get_path :: "json \<Rightarrow> string list \<Rightarrow> error + json" where
  "get_path x [] = Inr x"
| "get_path x (k # ks) = bind_err (py_get x k) (\<lambda>y. get_path y ks)"





text \<open>The numeric value of an operand of \<open>-\<close>: Python's \<open>bool\<close> is an \<open>int\<close>.\<close>

fun py_num :: "json \<Rightarrow> int option" where
  "py_num (JNum n) = Some n"
| "py_num (JBool b) = Some (if b then 1 else 0)"
| "py_num _ = None"

definition py_sub :: "json \<Rightarrow> json \<Rightarrow> error + int" where
  "py_sub a b =
     (case (py_num a, py_num b) of
        (Some m, Some n) \<Rightarrow> Inr (m - n)
      | _ \<Rightarrow> Inl TypeError)"

text \<open>\<open>a + '/rpc'\<close> for a string literal on the right: concatenation when \<open>a\<close> is a
  string, \<open>TypeError\<close> otherwise.\<close>

fun py_add_str :: "json \<Rightarrow> string \<Rightarrow> error + string" where
  "py_add_str (JStr s) t = Inr (s @ t)"
| "py_add_str _ t = Inl TypeError"

text \<open>\<open>for x in v\<close>: a list gives its elements, a dictionary its keys, a string its
  characters; nothing else is iterable.\<close>

fun py_iter :: "json \<Rightarrow> error + json list" where
  "py_iter (JList xs) = Inr xs"
| "py_iter (JDict kvs) = Inr (map (\<lambda>kv. JStr (fst kv)) kvs)"
| "py_iter (JStr s) = Inr (map (\<lambda>c. JStr [c]) s)"
| "py_iter _ = Inl TypeError"

section \<open>The external collaborators\<close>

text \<open>
  \<open>OCP(kind=k, namespace=ns).get(name)\<close> of the cluster resource API: the object, or
  the exception it raises. \<open>get()\<close> without an argument passes the empty name.
\<close>

type_synonym ocp_api = "string \<Rightarrow> string \<Rightarrow> json \<Rightarrow> error + json"


text \<open>\<open>run_mcg_cmd(cmd)\<close>: the output of the command-line tool, or its exception.\<close>

type_synonym mcg_cli = "string \<Rightarrow> error + string"

text \<open>The handle that \<open>boto3.resource\<close> builds, and the S3 endpoint behind it.\<close>

record s3_resource =
  endpoint_url :: json
  aws_access_key_id :: string
  aws_secret_access_key :: string

datatype s3_bucket = Bucket (bucket_name: string)

record s3_service =
  head_bucket :: "s3_resource \<Rightarrow> string \<Rightarrow> error + unit"
  buckets_all :: "s3_resource \<Rightarrow> error + s3_bucket list"
  objects_all :: "s3_resource \<Rightarrow> string \<Rightarrow> error + string list"

text \<open>\<open>requests.post(url, data=json.dumps(payload)).json()\<close> of the management
  endpoint: the reply to the \<open>n\<close>-th request of a call of \<open>check_data_reduction\<close>, or
  the exception raised by the request or by the decoding of its body.\<close>

type_synonym mgmt_rpc = "nat \<Rightarrow> string \<Rightarrow> json \<Rightarrow> error + json"

section \<open>The client\<close>

text \<open>
  The instance attributes of \<open>MCG\<close>. \<open>ocp_resource\<close> is the class attribute that no
  method assigns (it stays \<open>None\<close>); the constructor stores its handle in
  \<open>_ocp_resource\<close>, here \<open>ocp_resource_private\<close>, a pair of kind and namespace.
\<close>

record mcg =
  s3_resource :: s3_resource
  s3_endpoint :: json
  ocp_resource :: "(string \<times> string) option"
  mgmt_endpoint :: json
  region :: string
  access_key_id :: string
  access_key :: string
  namespace :: string
  noobaa_user :: string
  noobaa_password :: string
  ocp_resource_private :: "string \<times> string"





section \<open>Listing operations\<close>

text \<open>
  A method takes the client \<open>self\<close> and returns its result together with the client
  as the call leaves it, so that what a method does to the attributes is part of its
  model. Bucket names passed by the caller are strings.
\<close>

definition s3_list_all_bucket_names ::
  "mcg \<Rightarrow> s3_service \<Rightarrow> (error + string list) \<times> mcg" where
  "s3_list_all_bucket_names self s3 =
     (bind_err (buckets_all s3 (s3_resource self)) (\<lambda>bs. Inr (map bucket_name bs)), self)"

definition oc_list_all_bucket_names :: "mcg \<Rightarrow> ocp_api \<Rightarrow> (error + json list) \<times> mcg" where
  "oc_list_all_bucket_names self ocp =
     (bind_err (ocp ''obc'' (namespace self) (JStr [])) (\<lambda>obj.
      bind_err (py_get obj ''items'') (\<lambda>all_obcs_in_namespace.
      bind_err (py_iter all_obcs_in_namespace) (\<lambda>buckets.
      comprehension (\<lambda>bucket. get_path bucket [''spec'', ''bucketName'']) buckets))),
      self)"

definition cli_list_all_bucket_names :: "mcg \<Rightarrow> mcg_cli \<Rightarrow> (error + string list) \<times> mcg" where
  "cli_list_all_bucket_names self cli =
     (bind_err (cli ''obc list'') (\<lambda>out.
      comprehension (\<lambda>row. py_index (str_split_ws row) 1)
        (slice_1_m1 (str_split (CHR 0x0A) out))),
      self)"

definition s3_list_all_objects_in_bucket ::
  "mcg \<Rightarrow> string \<Rightarrow> s3_service \<Rightarrow> (error + string list) \<times> mcg" where
  "s3_list_all_objects_in_bucket self bucketname s3 =
     (objects_all s3 (s3_resource self) bucketname, self)"

definition s3_get_all_buckets :: "mcg \<Rightarrow> s3_service \<Rightarrow> (error + s3_bucket list) \<times> mcg" where
  "s3_get_all_buckets self s3 = (buckets_all s3 (s3_resource self), self)"

section \<open>Existence checks\<close>

text \<open>\<open>except ClientError\<close> has no condition on the error: every \<open>ClientError\<close> gives
  \<open>False\<close>, every other exception leaves the method.\<close>

definition s3_verify_bucket_exists ::
  "mcg \<Rightarrow> string \<Rightarrow> s3_service \<Rightarrow> (error + bool) \<times> mcg" where
  "s3_verify_bucket_exists self bucketname s3 =
     (case head_bucket s3 (s3_resource self) bucketname of
        Inr u \<Rightarrow> (Inr True, self)
      | Inl (ClientError code) \<Rightarrow> (Inr False, self)
      | Inl e \<Rightarrow> (Inl e, self))"

definition oc_verify_bucket_exists ::
  "mcg \<Rightarrow> string \<Rightarrow> ocp_api \<Rightarrow> (error + bool) \<times> mcg" where
  "oc_verify_bucket_exists self bucketname ocp =
     (case ocp ''obc'' (namespace self) (JStr bucketname) of
        Inr obj \<Rightarrow> (Inr True, self)
      | Inl (CommandFailed r) \<Rightarrow>
          (if str_contains ''NotFound'' r then (Inr False, self)
           else (Inl (CommandFailed r), self))
      | Inl e \<Rightarrow> (Inl e, self))"

definition cli_verify_bucket_exists ::
  "mcg \<Rightarrow> string \<Rightarrow> mcg_cli \<Rightarrow> (error + bool) \<times> mcg" where
  "cli_verify_bucket_exists self bucketname cli =
     (case cli_list_all_bucket_names self cli of
        (Inl e, self') \<Rightarrow> (Inl e, self')
      | (Inr names, self') \<Rightarrow> (Inr (bucketname \<in> set names), self'))"

section \<open>The data reduction check\<close>

definition auth_payload :: "string \<Rightarrow> string \<Rightarrow> json" where
  "auth_payload user pw =
     JDict [(''api'', JStr ''auth_api''),
            (''method'', JStr ''create_auth''),
            (''params'', JDict [(''role'', JStr ''admin''),
                                (''system'', JStr ''noobaa''),
                                (''email'', JStr user),
                                (''password'', JStr pw)])]"

definition read_bucket_payload :: "string \<Rightarrow> json \<Rightarrow> json" where
  "read_bucket_payload bucketname nb_token =
     JDict [(''api'', JStr ''bucket_api''),
            (''method'', JStr ''read_bucket''),
            (''params'', JDict [(''name'', JStr bucketname)]),
            (''auth_token'', nb_token)]"

text \<open>
  The closure \<open>_check_reduction\<close>. \<open>n\<close> is the number of requests already sent to the
  management endpoint; the result carries the number after the call.
\<close>

definition check_reduction ::
  "mgmt_rpc \<Rightarrow> string \<Rightarrow> string \<Rightarrow> json \<Rightarrow> nat \<Rightarrow> (error + (json \<times> json)) \<times> nat" where
  "check_reduction rpc mgmt_url bucketname nb_token n =
     (case rpc n mgmt_url (read_bucket_payload bucketname nb_token) of
        Inl e \<Rightarrow> (Inl e, Suc n)
      | Inr resp \<Rightarrow>
          (case get_path resp [''reply'', ''data'', ''size''] of
             Inl e \<Rightarrow> (Inl e, Suc n)
           | Inr bucket_data \<Rightarrow>
               (case rpc (Suc n) mgmt_url (read_bucket_payload bucketname nb_token) of
                  Inl e \<Rightarrow> (Inl e, Suc (Suc n))
                | Inr resp2 \<Rightarrow>
                    (case get_path resp2 [''reply'', ''data'', ''size_reduced''] of
                       Inl e \<Rightarrow> (Inl e, Suc (Suc n))
                     | Inr bucket_data_reduced \<Rightarrow>
                         (Inr (bucket_data, bucket_data_reduced), Suc (Suc n))))))"

text \<open>
  The handler \<open>except TimeoutExpiredError\<close>. \<open>bound\<close> holds the loop variables
  \<open>total_size\<close> and \<open>total_reduced\<close>: \<open>None\<close> while the loop has bound nothing, and
  then the logging line of the handler, which reads them, raises.
\<close>

definition on_timeout :: "(json \<times> json) option \<Rightarrow> error + bool" where
  "on_timeout bound =
     (case bound of
        None \<Rightarrow> Inl NameError
      | Some (total_size, total_reduced) \<Rightarrow>
          (case py_sub total_size total_reduced of
             Inl e \<Rightarrow> Inl e
           | Inr d \<Rightarrow> Inr False))"

text \<open>
  The \<open>try\<close> statement of lines 219 to 236, for a sampler that yields \<open>yields\<close> more
  samples and then raises \<open>TimeoutExpiredError\<close>. An exception of the check function
  passes through the sampler; the \<open>except\<close> clause catches it when it is a
  \<open>TimeoutExpiredError\<close>.
\<close>

fun poll_reduction ::
  "mgmt_rpc \<Rightarrow> string \<Rightarrow> string \<Rightarrow> json \<Rightarrow> nat \<Rightarrow> nat \<Rightarrow> (json \<times> json) option
     \<Rightarrow> (error + bool) \<times> nat" where
  "poll_reduction rpc mgmt_url bucketname nb_token 0 n bound = (on_timeout bound, n)"
| "poll_reduction rpc mgmt_url bucketname nb_token (Suc yields) n bound =
     (case check_reduction rpc mgmt_url bucketname nb_token n of
        (Inl e, n') \<Rightarrow>
          (if e = TimeoutExpiredError then (on_timeout bound, n') else (Inl e, n'))
      | (Inr (total_size, total_reduced), n') \<Rightarrow>
          (case py_sub total_size total_reduced of
             Inl e \<Rightarrow> (Inl e, n')
           | Inr d \<Rightarrow>
               (if d > 80000000 then (Inr True, n')
                else poll_reduction rpc mgmt_url bucketname nb_token yields n'
                       (Some (total_size, total_reduced)))))"

text \<open>
  Modelled from the spec: \<open>TimeoutSampler\<close> (ocs_ci/utility/utils.py) is not among the
  sources. Section 4.2 of the specification: the check function is invoked at cadence
  \<open>I\<close>, the first time at once or after the first interval, each invocation yields
  its value, and the sampler signals the timeout when the elapsed time exceeds \<open>T\<close>.
  Time is a logical clock in seconds. \<open>sampler_loop T I elapsed calls\<close> is the number of
  invocations made when the timeout is signalled; it is \<open>None\<close> when that never
  happens.
\<close>

partial_function (option) sampler_loop :: "nat \<Rightarrow> nat \<Rightarrow> nat \<Rightarrow> nat \<Rightarrow> nat option" where
  "sampler_loop T I elapsed calls =
     (if T < elapsed then Some calls else sampler_loop T I (elapsed + I) (Suc calls))"

declare sampler_loop.simps [code]

definition TimeoutSampler :: "nat \<Rightarrow> nat \<Rightarrow> bool \<Rightarrow> nat option" where
  "TimeoutSampler T I immediate = sampler_loop T I (if immediate then 0 else I) 0"

text \<open>
  \<open>check_data_reduction\<close>. Request 0 is the authentication; the polling starts with
  request 1 and with the loop variables unbound. \<open>immediate\<close> says whether the sampler
  makes its first call at once. The result is \<open>None\<close> when the method never returns.
\<close>

definition check_data_reduction ::
  "mcg \<Rightarrow> string \<Rightarrow> mgmt_rpc \<Rightarrow> bool \<Rightarrow> ((error + bool) \<times> mcg) option" where
  "check_data_reduction self bucketname rpc immediate =
     (case py_add_str (mgmt_endpoint self) ''/rpc'' of
        Inl e \<Rightarrow> Some (Inl e, self)
      | Inr mgmt_url \<Rightarrow>
          (case rpc 0 mgmt_url (auth_payload (noobaa_user self) (noobaa_password self)) of
             Inl e \<Rightarrow> Some (Inl e, self)
           | Inr resp \<Rightarrow>
               (case get_path resp [''reply'', ''token''] of
                  Inl e \<Rightarrow> Some (Inl e, self)
                | Inr nb_token \<Rightarrow>
                    (case TimeoutSampler 120 5 immediate of
                       None \<Rightarrow> None
                     | Some yields \<Rightarrow>
                         Some (fst (poll_reduction rpc mgmt_url bucketname nb_token
                                      yields 1 None),
                               self)))))"

section \<open>Predicates and data for the statements\<close>



text \<open>Request \<open>k\<close> with the \<open>read_bucket\<close> payload is answered, and the answer reports
  the size \<open>s\<close> and the reduced size \<open>r\<close>.\<close>

definition reports ::
  "mgmt_rpc \<Rightarrow> string \<Rightarrow> string \<Rightarrow> json \<Rightarrow> nat \<Rightarrow> int \<Rightarrow> int \<Rightarrow> bool" where
  "reports rpc mgmt_url bucketname nb_token k s r =
     (case rpc k mgmt_url (read_bucket_payload bucketname nb_token) of
        Inl e \<Rightarrow> False
      | Inr resp \<Rightarrow>
          get_path resp [''reply'', ''data'', ''size''] = Inr (JNum s)
          \<and> get_path resp [''reply'', ''data'', ''size_reduced''] = Inr (JNum r))"

text \<open>A cluster, a client built from it, and tool outputs and replies to evaluate the
  operations on.\<close>

definition noobaa_listing :: json where
  "noobaa_listing =
     JDict [(''items'', JList [JDict [(''status'', JDict
       [(''services'', JDict
          [(''serviceS3'', JDict [(''externalDNS'', JList [JStr ''https://s3.apps.example.com''])]),
           (''serviceMgmt'', JDict [(''externalDNS'', JList [JStr ''https://mgmt.apps.example.com''])])]),
        (''accounts'', JDict
          [(''admin'', JDict [(''secretRef'', JDict [(''name'', JStr ''noobaa-admin'')])])])])]])]"

definition full_secret :: json where
  "full_secret =
     JDict [(''data'', JDict [(''AWS_ACCESS_KEY_ID'', JStr ''AKIDEXAMPLE''),
                              (''AWS_SECRET_ACCESS_KEY'', JStr ''SECRETEXAMPLE''),
                              (''email'', JStr ''admin@noobaa.io''),
                              (''password'', JStr ''hunter2'')])]"


definition example_cluster :: "json \<Rightarrow> ocp_api" where
  "example_cluster secret =
     (\<lambda>kind ns nm. if kind = ''noobaa'' then Inr noobaa_listing else Inr secret)"



definition example_client :: mcg where
  "example_client =
     \<lparr> s3_resource = \<lparr> endpoint_url = JStr ''https://s3.apps.example.com'',
                        aws_access_key_id = ''AKIDEXAMPLE'',
                        aws_secret_access_key = ''SECRETEXAMPLE'' \<rparr>,
       s3_endpoint = JStr ''https://s3.apps.example.com'',
       ocp_resource = None,
       mgmt_endpoint = JStr ''https://mgmt.apps.example.com'',
       region = ''apps'',
       access_key_id = ''AKIDEXAMPLE'',
       access_key = ''SECRETEXAMPLE'',
       namespace = ''openshift-storage'',
       noobaa_user = ''admin@noobaa.io'',
       noobaa_password = ''hunter2'',
       ocp_resource_private = (''noobaa'', ''openshift-storage'') \<rparr>"

definition obc_list_output :: string where
  "obc_list_output =
     ''NAME  BUCKET'' @ [CHR 0x0A] @ ''--- ---'' @ [CHR 0x0A] @
     ''foo  mybucket-1'' @ [CHR 0x0A] @ ''bar  mybucket-2'' @ [CHR 0x0A]"

definition obc_list_output_one_header :: string where
  "obc_list_output_one_header =
     ''NAME  BUCKET'' @ [CHR 0x0A] @
     ''foo  mybucket-1'' @ [CHR 0x0A] @ ''bar  mybucket-2'' @ [CHR 0x0A]"

definition tool_prints :: "string \<Rightarrow> mcg_cli" where
  "tool_prints out = (\<lambda>cmd. Inr out)"

definition ghost_not_found :: ocp_api where
  "ghost_not_found = (\<lambda>kind ns nm. Inl (CommandFailed
     ''CommandFailed(Error from server (NotFound): objectbucketclaims.objectbucket.io ghost not found)''))"

definition unauthorized :: ocp_api where
  "unauthorized = (\<lambda>kind ns nm. Inl (CommandFailed ''CommandFailed(Unauthorized)''))"

definition forbidden_s3 :: s3_service where
  "forbidden_s3 =
     \<lparr> head_bucket = (\<lambda>res b. Inl (ClientError ''403'')),
       buckets_all = (\<lambda>res. Inl (ClientError ''403'')),
       objects_all = (\<lambda>res b. Inl (ClientError ''403'')) \<rparr>"

definition bucket_reply :: "int \<Rightarrow> int \<Rightarrow> json" where
  "bucket_reply s r =
     JDict [(''reply'', JDict [(''data'', JDict [(''size'', JNum s), (''size_reduced'', JNum r)])])]"

definition auth_reply :: json where
  "auth_reply = JDict [(''reply'', JDict [(''token'', JStr ''t0k3n'')])]"

text \<open>An endpoint that answers the authentication and then reports the same two
  numbers to every request.\<close>

definition steady_rpc :: "int \<Rightarrow> int \<Rightarrow> mgmt_rpc" where
  "steady_rpc s r = (\<lambda>k url payload. if k = 0 then Inr auth_reply else Inr (bucket_reply s r))"

text \<open>An endpoint whose \<open>k\<close>-th answer reports \<open>100 + k\<close> and \<open>k\<close>.\<close>

definition counting_rpc :: mgmt_rpc where
  "counting_rpc = (\<lambda>k url payload. Inr (bucket_reply (100 + int k) (int k)))"

section \<open>Strings\<close>

lemmas cli_eval = cli_list_all_bucket_names_def tool_prints_def obc_list_output_def
  obc_list_output_one_header_def bind_err_def slice_1_m1_def str_split_ws_def isspace_def
  py_index_def

text \<open>\<open>str_contains\<close> is the substring test.\<close>

lemma str_contains_iff: "str_contains needle hay \<longleftrightarrow> (\<exists>p s. hay = p @ needle @ s)"
proof (induction hay)
  case Nil
  then show ?case by auto
next
  case (Cons y ys)
  have "take (length needle) (y # ys) = needle \<longleftrightarrow> (\<exists>s. y # ys = needle @ s)"
    by (metis append_eq_conv_conj append_take_drop_id)
  moreover have "(\<exists>p s. y # ys = p @ needle @ s) \<longleftrightarrow>
      (\<exists>s. y # ys = needle @ s) \<or> (\<exists>p s. ys = p @ needle @ s)"
    by (auto simp: Cons_eq_append_conv)
  ultimately show ?case using Cons.IH by simp
qed

text \<open>\<open>str_split\<close> never returns the empty list.\<close>

lemma str_split_nonempty: "str_split sep s \<noteq> []"
  by (induction s) (auto split: list.splits)

text \<open>Joining the pieces with the separator gives the string back, and no piece
  holds the separator.\<close>

lemma str_join_Cons: "str_join sep ((x # w) # ws) = x # str_join sep (w # ws)"
  by (cases ws) simp_all

lemma str_join_split: "str_join sep (str_split sep s) = s"
proof (induction s)
  case Nil
  then show ?case by simp
next
  case (Cons x xs)
  obtain w ws where sp: "str_split sep xs = w # ws"
    using str_split_nonempty [of sep xs] by (cases "str_split sep xs") auto
  show ?case
    using Cons.IH sp by (simp add: str_join_Cons)
qed

lemma str_split_no_sep: "w \<in> set (str_split sep s) \<Longrightarrow> sep \<notin> set w"
proof (induction s arbitrary: w)
  case Nil
  then show ?case by simp
next
  case (Cons x xs)
  obtain v vs where sp: "str_split sep xs = v # vs"
    using str_split_nonempty [of sep xs] by (cases "str_split sep xs") auto
  have ih: "\<And>u. u \<in> set (v # vs) \<Longrightarrow> sep \<notin> set u"
    using Cons.IH sp by simp
  show ?case
  proof (cases "x = sep")
    case True
    then show ?thesis using Cons.prems sp ih by auto
  next
    case False
    then have "w = x # v \<or> w \<in> set vs" using Cons.prems sp by simp
    then show ?thesis using False ih by auto
  qed
qed

text \<open>The tokens of \<open>s.split()\<close> are not empty and hold no whitespace.\<close>

lemma split_tokens_clean:
  assumes "list_all (\<lambda>c. \<not> isspace c) tok" and "w \<in> set (split_tokens tok s)"
  shows "w \<noteq> [] \<and> list_all (\<lambda>c. \<not> isspace c) w"
  using assms
proof (induction s arbitrary: tok)
  case Nil
  then show ?case by (simp split: if_splits)
next
  case (Cons x xs)
  show ?case
  proof (cases "isspace x")
    case True
    show ?thesis
    proof (cases "tok = []")
      case empty: True
      then have "w \<in> set (split_tokens [] xs)" using Cons.prems(2) True by simp
      then show ?thesis using Cons.IH [of "[]"] by simp
    next
      case False
      then have "w = tok \<or> w \<in> set (split_tokens [] xs)" using Cons.prems(2) True by simp
      then show ?thesis using Cons.IH [of "[]"] Cons.prems(1) False by auto
    qed
  next
    case False
    then have "w \<in> set (split_tokens (tok @ [x]) xs)" using Cons.prems(2) by simp
    moreover have "list_all (\<lambda>c. \<not> isspace c) (tok @ [x])" using Cons.prems(1) False by simp
    ultimately show ?thesis using Cons.IH [of "tok @ [x]"] by simp
  qed
qed

lemma str_split_ws_clean:
  "w \<in> set (str_split_ws s) \<Longrightarrow> w \<noteq> [] \<and> list_all (\<lambda>c. \<not> isspace c) w"
  using split_tokens_clean [of "[]" w s] by (simp add: str_split_ws_def)

section \<open>The command-line listing\<close>

text \<open>
  C1, as the specification states it: the output
  \<open>NAME  BUCKET\<close>, \<open>--- ---\<close>, \<open>foo  mybucket-1\<close>, \<open>bar  mybucket-2\<close> (each line ended by a
  newline) is parsed to \<open>[mybucket-1, mybucket-2]\<close>. This is false: the slice \<open>[1:-1]\<close>
  removes the first line and the empty string that follows the last newline, so the
  separator line stays and gives its second token.
\<close>

theorem cli_list_scenario_counterexample:
  "fst (cli_list_all_bucket_names example_client (tool_prints obc_list_output)) \<noteq>
     Inr [''mybucket-1'', ''mybucket-2'']"
  by (simp add: cli_eval)

text \<open>
  C1, amended: on that output \<open>cli_list_all_bucket_names\<close> returns
  \<open>[---, mybucket-1, mybucket-2]\<close>; it returns \<open>[mybucket-1, mybucket-2]\<close> on the output
  that has the header line only, without the separator line.
\<close>

theorem cli_list_scenario:
  "fst (cli_list_all_bucket_names self (tool_prints obc_list_output)) =
     Inr [''---'', ''mybucket-1'', ''mybucket-2'']
   \<and> fst (cli_list_all_bucket_names self (tool_prints obc_list_output_one_header)) =
     Inr [''mybucket-1'', ''mybucket-2'']"
  by (simp add: cli_eval)

text \<open>
  C6: \<open>cli_verify_bucket_exists\<close> returns \<open>True\<close> if and only if the name is in the list
  that \<open>cli_list_all_bucket_names\<close> returns for the same tool; it returns \<open>False\<close> when
  the list does not hold the name, and the exception of the listing when that raises.
\<close>

theorem cli_verify_is_membership:
  "cli_verify_bucket_exists self bucketname cli =
     (case fst (cli_list_all_bucket_names self cli) of
        Inl e \<Rightarrow> (Inl e, self)
      | Inr names \<Rightarrow> (Inr (bucketname \<in> set names), self))
   \<and> (fst (cli_verify_bucket_exists self bucketname cli) = Inr True \<longleftrightarrow>
        (\<exists>names. fst (cli_list_all_bucket_names self cli) = Inr names
                  \<and> bucketname \<in> set names))"
  by (auto simp: cli_verify_bucket_exists_def cli_list_all_bucket_names_def
           split: sum.splits prod.splits)

theorem cli_verify_is_membership_witness:
  "fst (cli_verify_bucket_exists example_client ''mybucket-2'' (tool_prints obc_list_output))
     = Inr True
   \<and> fst (cli_verify_bucket_exists example_client ''foo'' (tool_prints obc_list_output))
     = Inr False"
  using cli_verify_is_membership
          [of example_client "''mybucket-2''" "tool_prints obc_list_output"]
        cli_verify_is_membership
          [of example_client "''foo''" "tool_prints obc_list_output"]
  by (simp add: cli_eval)

section \<open>Existence checks through S3 and through the cluster API\<close>

text \<open>
  C2 says that \<open>s3_verify_bucket_exists\<close> returns \<open>False\<close> only for the "not found"
  error of \<open>head_bucket\<close> and lets every other protocol error through. The method
  catches every \<open>ClientError\<close>: against an endpoint that answers 403 (access denied)
  it returns \<open>False\<close>, where \<open>oc_verify_bucket_exists\<close> raises again what is not
  \<open>NotFound\<close>.
\<close>

theorem s3_verify_forbidden_is_false:
  "s3_verify_bucket_exists self ''private-bucket'' forbidden_s3 = (Inr False, self)"
  by (simp add: s3_verify_bucket_exists_def forbidden_s3_def)

text \<open>
  C4: \<open>oc_verify_bucket_exists\<close> returns \<open>True\<close> when the claim object is fetched,
  \<open>False\<close> when the fetch raises a \<open>CommandFailed\<close> whose \<open>repr\<close> contains \<open>NotFound\<close>,
  and raises every other exception again.
\<close>

theorem oc_verify_not_found:
  "(ocp ''obc'' (namespace self) (JStr bucketname) = Inr obj \<longrightarrow>
      oc_verify_bucket_exists self bucketname ocp = (Inr True, self))
   \<and> (ocp ''obc'' (namespace self) (JStr bucketname) = Inl (CommandFailed r)
        \<and> str_contains ''NotFound'' r \<longrightarrow>
      oc_verify_bucket_exists self bucketname ocp = (Inr False, self))
   \<and> (ocp ''obc'' (namespace self) (JStr bucketname) = Inl e
        \<and> (\<forall>r. e = CommandFailed r \<longrightarrow> \<not> str_contains ''NotFound'' r) \<longrightarrow>
      oc_verify_bucket_exists self bucketname ocp = (Inl e, self))"
  by (auto simp: oc_verify_bucket_exists_def split: sum.splits error.splits)

theorem oc_verify_not_found_witness:
  "oc_verify_bucket_exists example_client ''ghost'' ghost_not_found = (Inr False, example_client)
   \<and> oc_verify_bucket_exists example_client ''ghost'' (example_cluster full_secret) =
       (Inr True, example_client)
   \<and> oc_verify_bucket_exists example_client ''ghost'' unauthorized =
       (Inl (CommandFailed ''CommandFailed(Unauthorized)''), example_client)"
  using oc_verify_not_found [of ghost_not_found example_client "''ghost''" _
          "''CommandFailed(Error from server (NotFound): objectbucketclaims.objectbucket.io ghost not found)''"]
        oc_verify_not_found [of "example_cluster full_secret" example_client "''ghost''"
          full_secret]
        oc_verify_not_found [of unauthorized example_client "''ghost''" _ _
          "CommandFailed ''CommandFailed(Unauthorized)''"]
  by (simp add: ghost_not_found_def unauthorized_def example_cluster_def)

section \<open>The sampler\<close>

text \<open>With a positive interval the sampler times out, after a number of invocations
  given in closed form.\<close>

lemma sampler_loop_closed:
  assumes "0 < I"
  shows "sampler_loop T I e c = Some (if T < e then c else c + (T - e) div I + 1)"
proof (induction "T + 1 - e" arbitrary: e c rule: less_induct)
  case less
  show ?case
  proof (cases "T < e")
    case True
    then show ?thesis by (subst sampler_loop.simps) simp
  next
    case False
    have step: "sampler_loop T I e c = sampler_loop T I (e + I) (Suc c)"
      using False by (subst sampler_loop.simps) simp
    have "T + 1 - (e + I) < T + 1 - e"
      using False assms by simp
    then have ih: "sampler_loop T I (e + I) (Suc c) =
        Some (if T < e + I then Suc c else Suc c + (T - (e + I)) div I + 1)"
      by (rule less)
    show ?thesis
    proof (cases "T < e + I")
      case True
      then have "(T - e) div I = 0" using False by simp
      then show ?thesis using step ih True False by simp
    next
      case far: False
      then have "I \<le> T - e" by simp
      then have "(T - e) div I = Suc ((T - e - I) div I)"
        using assms by (simp add: le_div_geq)
      then show ?thesis using step ih far False by (simp add: diff_diff_left add.commute)
    qed
  qed
qed

lemma TimeoutSampler_calls:
  assumes "0 < I"
  shows "TimeoutSampler T I immediate = Some (if immediate then T div I + 1 else T div I)"
proof (cases "I \<le> T")
  case True
  then have "(T - I) div I + 1 = T div I"
    using assms by (simp add: le_div_geq)
  then show ?thesis
    using True by (simp add: TimeoutSampler_def sampler_loop_closed [OF assms])
next
  case False
  then have "T div I = 0" by simp
  then show ?thesis
    using False by (simp add: TimeoutSampler_def sampler_loop_closed [OF assms])
qed

lemma TimeoutSampler_120_5: "TimeoutSampler 120 5 immediate = Some (if immediate then 25 else 24)"
  by (simp add: TimeoutSampler_calls)

text \<open>With the interval 0 the logical clock stands still and the sampler never times
  out.\<close>

lemma sampler_loop_stalls:
  assumes "sampler_loop T I e c = Some n"
  shows "I = 0 \<longrightarrow> T < e"
proof (rule sampler_loop.raw_induct [where P = "\<lambda>T I e c n. I = 0 \<longrightarrow> T < e", OF _ assms])
  fix f :: "nat \<Rightarrow> nat \<Rightarrow> nat \<Rightarrow> nat \<Rightarrow> nat option" and T I elapsed calls y
  assume ih: "\<And>T I e c n. f T I e c = Some n \<Longrightarrow> I = 0 \<longrightarrow> T < e"
    and eq: "(if T < elapsed then Some calls else f T I (elapsed + I) (Suc calls)) = Some y"
  show "I = 0 \<longrightarrow> T < elapsed"
  proof (cases "T < elapsed")
    case True
    then show ?thesis by simp
  next
    case False
    with eq have "f T I (elapsed + I) (Suc calls) = Some y" by simp
    from ih [OF this] show ?thesis by auto
  qed
qed

lemma TimeoutSampler_never: "TimeoutSampler T 0 immediate = None"
proof (cases "TimeoutSampler T 0 immediate")
  case (Some n)
  then have "T < 0"
    using sampler_loop_stalls [of T 0 0 0 n] by (simp add: TimeoutSampler_def)
  then show ?thesis by simp
qed simp

text \<open>\<open>(T + I - 1) div I\<close> is the quotient rounded up.\<close>

lemma ceiling_div:
  assumes "0 < (I::nat)"
  shows "(T + I - 1) div I = (if I dvd T then T div I else T div I + 1)"
proof -
  define q r where "q = T div I" and "r = T mod I"
  have T: "T = q * I + r" and r: "r < I"
    using assms by (simp_all add: q_def r_def)
  show ?thesis
  proof (cases "r = 0")
    case True
    then have "T + I - 1 = (I - 1) + q * I" using T assms by simp
    then have "(T + I - 1) div I = (I - 1) div I + q"
      using assms by (simp only: div_mult_self1 [OF less_imp_neq [OF assms, symmetric]])
    moreover have "I dvd T" using True by (simp add: r_def dvd_eq_mod_eq_0)
    ultimately show ?thesis using assms by (simp add: q_def)
  next
    case False
    then have "T + I - 1 = (r - 1) + (q + 1) * I" using T by simp
    then have "(T + I - 1) div I = (r - 1) div I + (q + 1)"
      using assms by (simp only: div_mult_self1 [OF less_imp_neq [OF assms, symmetric]])
    moreover have "(r - 1) div I = 0" using r by simp
    moreover have "\<not> I dvd T" using False by (simp add: r_def dvd_eq_mod_eq_0)
    ultimately show ?thesis by (simp add: q_def)
  qed
qed

text \<open>
  C9: for every timeout \<open>T\<close> and every positive interval \<open>I\<close>, the sampler whose
  consumer is never satisfied invokes the check function at least \<open>T div I\<close> times and
  at most \<open>\<lceil>T / I\<rceil> + 1\<close> times, and then signals the timeout.
\<close>

theorem sampler_invocations_bounded:
  assumes "0 < I"
  shows "\<exists>n. TimeoutSampler T I immediate = Some n
             \<and> T div I \<le> n \<and> n \<le> (T + I - 1) div I + 1"
proof -
  have "T div I \<le> (T + I - 1) div I"
    by (rule div_le_mono) (use assms in simp)
  then show ?thesis
    by (simp add: TimeoutSampler_calls [OF assms])
qed

theorem sampler_invocations_bounded_witness:
  "(0::nat) < 5 \<and> (\<exists>n. TimeoutSampler 120 5 True = Some n \<and> 24 \<le> n \<and> n \<le> 25)
   \<and> (\<exists>n. TimeoutSampler 12 5 False = Some n \<and> 2 \<le> n \<and> n \<le> 4)"
  using sampler_invocations_bounded [of 5 120 True]
        sampler_invocations_bounded [of 5 12 False]
  by simp

section \<open>The data reduction check\<close>

text \<open>
  C7: one call of \<open>_check_reduction\<close> sends two \<open>read_bucket\<close> requests for the same
  bucket, takes \<open>size\<close> from the reply to the first and \<open>size_reduced\<close> from the reply
  to the second, and returns the two as one pair.
\<close>

theorem check_reduction_two_reads:
  assumes "rpc n mgmt_url (read_bucket_payload bucketname nb_token) = Inr resp1"
      and "rpc (Suc n) mgmt_url (read_bucket_payload bucketname nb_token) = Inr resp2"
      and "get_path resp1 [''reply'', ''data'', ''size''] = Inr bucket_data"
      and "get_path resp2 [''reply'', ''data'', ''size_reduced''] = Inr bucket_data_reduced"
  shows "check_reduction rpc mgmt_url bucketname nb_token n =
           (Inr (bucket_data, bucket_data_reduced), n + 2)"
  using assms by (simp add: check_reduction_def)

theorem check_reduction_two_reads_witness:
  "check_reduction counting_rpc ''u'' ''b'' JNull 1 = (Inr (JNum 101, JNum 2), 3)"
  using check_reduction_two_reads [of counting_rpc 1 "''u''" "''b''" JNull
          "bucket_reply 101 1" "bucket_reply 102 2" "JNum 101" "JNum 2"]
  by (simp add: counting_rpc_def bucket_reply_def bind_err_def)

lemma check_reduction_reports:
  assumes "reports rpc u b tok n s r" and "reports rpc u b tok (Suc n) s' r'"
  shows "check_reduction rpc u b tok n = (Inr (JNum s, JNum r'), Suc (Suc n))"
  using assms by (auto simp: reports_def check_reduction_def split: sum.splits)

lemma ex_less_Suc_shift: "(\<exists>i<Suc y. P i) \<longleftrightarrow> P 0 \<or> (\<exists>i<y. P (Suc i))"
  by (metis less_Suc_eq_0_disj)

text \<open>The polling loop over replies that all report numbers: sample \<open>i\<close> is the size
  of reply \<open>2 i\<close> and the reduced size of reply \<open>2 i + 1\<close>, counted from the first
  request of the loop.\<close>

lemma poll_reduction_result:
  assumes "\<And>k. reports rpc u b tok (n + k) (sz k) (rd k)"
  shows "fst (poll_reduction rpc u b tok yields n bound) =
           (if \<exists>i<yields. sz (2 * i) - rd (2 * i + 1) > 80000000 then Inr True
            else if yields = 0 then on_timeout bound else Inr False)"
  using assms
proof (induction yields arbitrary: n bound sz rd)
  case 0
  then show ?case by simp
next
  case (Suc yields)
  have r0: "reports rpc u b tok n (sz 0) (rd 0)" using Suc.prems [of 0] by simp
  have r1: "reports rpc u b tok (Suc n) (sz 1) (rd 1)" using Suc.prems [of 1] by simp
  have chk: "check_reduction rpc u b tok n = (Inr (JNum (sz 0), JNum (rd 1)), Suc (Suc n))"
    by (rule check_reduction_reports [OF r0 r1])
  have sub: "py_sub (JNum (sz 0)) (JNum (rd 1)) = Inr (sz 0 - rd 1)"
    by (simp add: py_sub_def)
  show ?case
  proof (cases "sz 0 - rd 1 > 80000000")
    case True
    then have "\<exists>i<Suc yields. sz (2 * i) - rd (2 * i + 1) > 80000000"
      by (intro exI [of _ 0]) simp
    then show ?thesis using chk sub True by simp
  next
    case False
    have rest: "\<And>k. reports rpc u b tok (Suc (Suc n) + k) (sz (k + 2)) (rd (k + 2))"
      using Suc.prems [of "k + 2" for k] by (simp add: add.commute)
    have ih: "fst (poll_reduction rpc u b tok yields (Suc (Suc n))
                 (Some (JNum (sz 0), JNum (rd 1)))) =
        (if \<exists>i<yields. sz (2 * i + 2) - rd (2 * i + 1 + 2) > 80000000 then Inr True
         else if yields = 0 then on_timeout (Some (JNum (sz 0), JNum (rd 1))) else Inr False)"
      using Suc.IH [of "Suc (Suc n)" "\<lambda>k. sz (k + 2)" "\<lambda>k. rd (k + 2)", OF rest] by simp
    have ot: "on_timeout (Some (JNum (sz 0), JNum (rd 1))) = Inr False"
      by (simp add: on_timeout_def py_sub_def)
    have shift: "(\<exists>i<Suc yields. sz (2 * i) - rd (2 * i + 1) > 80000000) \<longleftrightarrow>
                 (\<exists>i<yields. sz (2 * i + 2) - rd (2 * i + 1 + 2) > 80000000)"
      using False by (simp add: ex_less_Suc_shift add.commute)
    show ?thesis
      unfolding shift using chk sub False ih ot by simp
  qed
qed

text \<open>
  C3: for a client whose management endpoint is a string, an endpoint that answers the
  authentication with a token and every \<open>read_bucket\<close> request with numbers, and any
  bucket name, \<open>check_data_reduction\<close> returns \<open>True\<close> if and only if one of the
  samples polled before the timeout of 120 seconds (interval 5 seconds: 25 samples
  when the first call is immediate, 24 otherwise) has
  \<open>size - size_reduced > 80000000\<close>, and \<open>False\<close> when none has. Reply \<open>k\<close> to
  \<open>read_bucket\<close> reports \<open>sz k\<close> and \<open>rd k\<close>.
\<close>

theorem check_data_reduction_threshold:
  assumes ep: "mgmt_endpoint self = JStr ep"
      and auth: "rpc 0 (ep @ ''/rpc'') (auth_payload (noobaa_user self) (noobaa_password self))
                   = Inr resp"
      and tok: "get_path resp [''reply'', ''token''] = Inr nb_token"
      and samples: "\<forall>k. reports rpc (ep @ ''/rpc'') bucketname nb_token (Suc k) (sz k) (rd k)"
  shows "check_data_reduction self bucketname rpc immediate =
           Some (Inr (\<exists>i < (if immediate then 25 else 24).
                        sz (2 * i) - rd (2 * i + 1) > 80000000),
                 self)"
proof -
  let ?yields = "if immediate then 25 else 24 :: nat"
  have rep: "\<And>k. reports rpc (ep @ ''/rpc'') bucketname nb_token (1 + k) (sz k) (rd k)"
    using samples by simp
  have "fst (poll_reduction rpc (ep @ ''/rpc'') bucketname nb_token ?yields 1 None) =
          (if \<exists>i<?yields. sz (2 * i) - rd (2 * i + 1) > 80000000 then Inr True
           else if ?yields = 0 then on_timeout None else Inr False)"
    by (rule poll_reduction_result [OF rep])
  also have "\<dots> = Inr (\<exists>i<?yields. sz (2 * i) - rd (2 * i + 1) > 80000000)"
    by simp
  finally show ?thesis
    by (simp add: check_data_reduction_def ep auth tok TimeoutSampler_120_5
          del: get_path.simps)
qed

theorem check_data_reduction_threshold_witness:
  "check_data_reduction example_client ''mybucket-1'' (steady_rpc 100000000 1000) True =
     Some (Inr True, example_client)
   \<and> check_data_reduction example_client ''mybucket-1'' (steady_rpc 100000000 90000000) False =
     Some (Inr False, example_client)"
proof -
  have some: "\<exists>i::nat. i < 25" by (rule exI [of _ 0]) simp
  have a: "check_data_reduction example_client ''mybucket-1'' (steady_rpc 100000000 1000) True =
     Some (Inr True, example_client)"
    using some
      check_data_reduction_threshold
        [where self = example_client and ep = "''https://mgmt.apps.example.com''"
           and rpc = "steady_rpc 100000000 1000" and resp = auth_reply
           and nb_token = "JStr ''t0k3n''" and bucketname = "''mybucket-1''"
           and sz = "\<lambda>k. 100000000" and rd = "\<lambda>k. 1000" and immediate = True]
    by (simp add: example_client_def steady_rpc_def auth_reply_def bucket_reply_def
          reports_def bind_err_def)
  have b: "check_data_reduction example_client ''mybucket-1'' (steady_rpc 100000000 90000000)
       False = Some (Inr False, example_client)"
    using
      check_data_reduction_threshold
        [where self = example_client and ep = "''https://mgmt.apps.example.com''"
           and rpc = "steady_rpc 100000000 90000000" and resp = auth_reply
           and nb_token = "JStr ''t0k3n''" and bucketname = "''mybucket-1''"
           and sz = "\<lambda>k. 100000000" and rd = "\<lambda>k. 90000000" and immediate = False]
    by (simp add: example_client_def steady_rpc_def auth_reply_def bucket_reply_def
          reports_def bind_err_def)
  from a b show ?thesis by simp
qed

text \<open>
  C10: the \<open>try\<close> statement of \<open>check_data_reduction\<close>, entered with the loop variables
  unbound, returns \<open>False\<close> only when the sampler yielded a sample before the timeout;
  when the sampler raises the timeout before it yields anything, the handler raises
  \<open>NameError\<close> (Python's \<open>UnboundLocalError\<close>) instead of returning \<open>False\<close>.
\<close>

theorem timeout_before_first_sample:
  "poll_reduction rpc mgmt_url bucketname nb_token 0 n None = (Inl NameError, n)
   \<and> (fst (poll_reduction rpc mgmt_url bucketname nb_token yields n None) = Inr False \<longrightarrow>
        0 < yields
        \<and> (\<exists>sample n'. check_reduction rpc mgmt_url bucketname nb_token n = (Inr sample, n')))"
proof (cases yields)
  case 0
  then show ?thesis by (simp add: on_timeout_def)
next
  case (Suc y)
  then show ?thesis
    by (auto simp: on_timeout_def split: prod.splits sum.splits if_splits)
qed

theorem timeout_before_first_sample_witness:
  "poll_reduction (steady_rpc 10 0) ''u'' ''b'' JNull 0 1 None = (Inl NameError, 1)
   \<and> fst (poll_reduction (steady_rpc 10 0) ''u'' ''b'' JNull (Suc (Suc 0)) 1 None) = Inr False
   \<and> check_reduction (steady_rpc 10 0) ''u'' ''b'' JNull 1 = (Inr (JNum 10, JNum 0), 3)"
  using timeout_before_first_sample
          [of "steady_rpc 10 0" "''u''" "''b''" JNull 1 "Suc (Suc 0)"]
  by (simp add: steady_rpc_def bucket_reply_def check_reduction_def bind_err_def py_sub_def
        on_timeout_def)

section \<open>The attributes of the client\<close>

text \<open>
  C8: no operation of the client changes an attribute: the listing operations, the
  existence checks and \<open>check_data_reduction\<close> (which returns) leave the client as
  they found it.
\<close>

theorem operations_keep_client:
  "snd (s3_list_all_bucket_names self s3) = self
   \<and> snd (oc_list_all_bucket_names self ocp) = self
   \<and> snd (cli_list_all_bucket_names self cli) = self
   \<and> snd (s3_list_all_objects_in_bucket self bucketname s3) = self
   \<and> snd (s3_get_all_buckets self s3) = self
   \<and> snd (s3_verify_bucket_exists self bucketname s3) = self
   \<and> snd (oc_verify_bucket_exists self bucketname ocp) = self
   \<and> snd (cli_verify_bucket_exists self bucketname cli) = self
   \<and> (\<exists>r. check_data_reduction self bucketname rpc immediate = Some (r, self))"
proof -
  have "snd (s3_verify_bucket_exists self bucketname s3) = self"
    by (simp add: s3_verify_bucket_exists_def split: sum.splits error.splits)
  moreover have "snd (oc_verify_bucket_exists self bucketname ocp) = self"
    by (simp add: oc_verify_bucket_exists_def split: sum.splits error.splits)
  moreover have "snd (cli_verify_bucket_exists self bucketname cli) = self"
    by (simp add: cli_verify_bucket_exists_def cli_list_all_bucket_names_def
          split: sum.splits prod.splits)
  moreover have "\<exists>r. check_data_reduction self bucketname rpc immediate = Some (r, self)"
    by (simp add: check_data_reduction_def TimeoutSampler_120_5 split: sum.splits)
  ultimately show ?thesis
    by (simp add: s3_list_all_bucket_names_def oc_list_all_bucket_names_def
          cli_list_all_bucket_names_def s3_list_all_objects_in_bucket_def
          s3_get_all_buckets_def)
qed

section \<open>The constructor\<close>







end
